theory Spec2Isabelle
  imports Complex_Main "HOL-Library.Word" "HOL-Library.AList"
begin

unbundle bit_operations_syntax

section \<open>romlib.binary: errors\<close>

text \<open>
  Every exception that the modelled fragment of \<^verbatim>\<open>romlib/binary.py\<close> can raise is a
  constructor of one datatype; a function that may raise returns \<open>error + 'a\<close>.
  \<open>RomMapError\<close> carries the two values formatted into its message (the set name and the
  overlapping keys), \<open>NameError\<close> the unbound name.
\<close>

datatype error =
    AttributeError
  | IndexError
  | KeyError string
  | StopIteration
  | NameError string
  | TypeError
  | ValueError "string list"
  | CreationError
  | InterpretError
  | FileExistsError string
  | FileNotFoundError string
  | RomMapError string "string list"

section \<open>Address\<close>

text \<open>
  \<^verbatim>\<open>class Address\<close> keeps one integer, \<^verbatim>\<open>self._address\<close>, the ROM offset. The
  constructor looks the converter up by name (\<^verbatim>\<open>getattr(self, "_from_" + schema)\<close>), so
  a schema other than \<^verbatim>\<open>"offset"\<close> and \<^verbatim>\<open>"hirom"\<close> raises AttributeError. Python integers
  are unbounded: they are \<open>int\<close> here, \<^verbatim>\<open>|\<close> is \<open>OR\<close> and \<^verbatim>\<open>%\<close> with a positive
  modulus is \<open>mod\<close>.
\<close>

record Address =
  address :: int

definition from_offset :: "int \<Rightarrow> int" where
  "from_offset offset = offset"

definition from_hirom :: "int \<Rightarrow> int" where
  "from_hirom offset = offset mod 0x400000"

definition Address_init :: "int \<Rightarrow> string \<Rightarrow> error + Address" where
  "Address_init offset schema =
     (if schema = ''offset'' then Inr \<lparr>address = from_offset offset\<rparr>
      else if schema = ''hirom'' then Inr \<lparr>address = from_hirom offset\<rparr>
      else Inl AttributeError)"

definition rom :: "Address \<Rightarrow> int" where
  "rom self = address self"

definition hirom :: "Address \<Rightarrow> int" where
  "hirom self = address self OR 0xC00000"

text \<open>
  The two conversions as the callers compose them: build an address from one
  representation, read it in the other.
\<close>

definition offset_to_pointer :: "int \<Rightarrow> error + int" where
  "offset_to_pointer n = map_sum id hirom (Address_init n ''offset'')"

definition pointer_to_offset :: "int \<Rightarrow> error + int" where
  "pointer_to_offset m = map_sum id rom (Address_init m ''hirom'')"

definition canonical_pointer :: "int \<Rightarrow> error + int" where
  "canonical_pointer m =
     (case pointer_to_offset m of Inl e \<Rightarrow> Inl e | Inr off \<Rightarrow> offset_to_pointer off)"

section \<open>Address: theorems\<close>

lemma mirror_bits: "(0xC00000 :: int) = push_bit 22 3"
  by simp

lemma take_bit_22_mirror: "take_bit 22 (x OR (0xC00000 :: int)) = take_bit 22 x"
  unfolding mirror_bits by (simp add: take_bit_push_bit)

lemma fold_mirror: "(x OR (0xC00000 :: int)) mod 0x400000 = x mod 0x400000"
proof -
  have "(0x400000 :: int) = 2 ^ 22" by simp
  then show ?thesis
    using take_bit_22_mirror [of x] by (simp only: take_bit_eq_mod)
qed

text \<open>
  C3. An address built from an offset \<open>N\<close> reads as the pointer \<open>N OR 0xC00000\<close>; an
  address built from a mirrored pointer \<open>M\<close> reads as the offset \<open>M mod 0x400000\<close>. Both
  compositions return a value (\<open>Inr\<close>) for every integer, so in particular for every
  24-bit one, and the offset lies in the 4 MiB base range.
\<close>

theorem address_symmetry:
  "offset_to_pointer N = Inr (N OR 0xC00000)
   \<and> pointer_to_offset M = Inr (M mod 0x400000)
   \<and> 0 \<le> M mod 0x400000 \<and> M mod 0x400000 < 0x400000"
  by (simp add: offset_to_pointer_def pointer_to_offset_def Address_init_def
      from_offset_def from_hirom_def hirom_def rom_def)

text \<open>
  C10. Pointer to offset to pointer sends \<open>M\<close> to \<open>(M mod 0x400000) OR 0xC00000\<close>. Doing
  it twice gives the same as doing it once, and the pointer \<open>0x808000\<close> of another mirror
  is not a fixed point: it lands on \<open>0xC08000\<close>.
\<close>

theorem pointer_canonicalization:
  "canonical_pointer M = Inr ((M mod 0x400000) OR 0xC00000)
   \<and> canonical_pointer ((M mod 0x400000) OR 0xC00000) = canonical_pointer M
   \<and> canonical_pointer 0x808000 = Inr 0xC08000
   \<and> canonical_pointer 0x808000 \<noteq> Inr 0x808000"
proof -
  have one: "canonical_pointer m = Inr ((m mod 0x400000) OR 0xC00000)" for m
    by (simp add: canonical_pointer_def offset_to_pointer_def pointer_to_offset_def
        Address_init_def from_offset_def from_hirom_def hirom_def rom_def)
  have twice: "canonical_pointer ((M mod 0x400000) OR 0xC00000) = canonical_pointer M"
    unfolding one by (simp only: fold_mirror mod_mod_trivial)
  have "(0x808000 :: int) mod 0x400000 = 0x8000" by simp
  moreover have "(0x8000 :: int) OR 0xC00000 = 0xC08000" by simp
  ultimately have ex: "canonical_pointer 0x808000 = Inr 0xC08000"
    unfolding one by (simp only:)
  from one twice ex show ?thesis by simp
qed


section \<open>Field descriptors and structure definitions\<close>

text \<open>
  A field descriptor is one row of a structure's csv file: a dictionary with the keys
  \<^verbatim>\<open>id, label, type, size, display, tags, order, comment\<close>. The declared size of a row
  is a string; the constructor replaces the size of a storage field by the number of
  bits that \<^verbatim>\<open>tobits\<close> gives for it. The type of the size is therefore a parameter of
  the record: a \<open>field\<close> is a descriptor whose size is a number of bits. A Python
  \<^verbatim>\<open>str\<close> is a \<open>string\<close> whose characters are the code points below 256.
\<close>

record 'sz descriptor =
  f_id :: string
  f_label :: string
  f_type :: string
  f_size :: 'sz
  f_display :: string
  f_tags :: string
  f_order :: string
  f_comment :: string

type_synonym field = "int descriptor"

text \<open>
  \<^verbatim>\<open>str.isalnum()\<close>: at least one character, and every character alphanumeric. On the
  code points below 256 these are the ASCII digits and letters and the Latin-1 letters,
  superscript digits and vulgar fractions.
\<close>

definition isalnum_char :: "char \<Rightarrow> bool" where
  "isalnum_char c =
     (let n = (of_char c :: nat) in
        (48 \<le> n \<and> n \<le> 57) \<or> (65 \<le> n \<and> n \<le> 90) \<or> (97 \<le> n \<and> n \<le> 122)
        \<or> n = 170 \<or> n = 178 \<or> n = 179 \<or> n = 181 \<or> n = 185 \<or> n = 186
        \<or> (188 \<le> n \<and> n \<le> 190) \<or> (192 \<le> n \<and> n \<le> 214)
        \<or> (216 \<le> n \<and> n \<le> 246) \<or> (248 \<le> n \<and> n \<le> 255))"

definition isalnum :: "string \<Rightarrow> bool" where
  "isalnum s = (s \<noteq> [] \<and> list_all isalnum_char s)"

definition isdata :: "'sz descriptor \<Rightarrow> bool" where
  "isdata f = isalnum (f_id f)"

text \<open>\<^verbatim>\<open>field['id'][0] == "*"\<close>: indexing the empty string raises IndexError.\<close>

definition ispointer :: "'sz descriptor \<Rightarrow> error + bool" where
  "ispointer f = (case f_id f of [] \<Rightarrow> Inl IndexError | c # _ \<Rightarrow> Inr (c = CHR ''*''))"

definition isname :: "'sz descriptor \<Rightarrow> bool" where
  "isname f = (f_label f = ''Name'')"

text \<open>
  \<^verbatim>\<open>[f for f in fields if self.ispointer(f)]\<close>: the comprehension stops at the first
  descriptor on which the test raises.
\<close>

fun select_pointers :: "'sz descriptor list \<Rightarrow> error + 'sz descriptor list" where
  "select_pointers [] = Inr []"
| "select_pointers (f # fs) =
     (case ispointer f of
        Inl e \<Rightarrow> Inl e
      | Inr b \<Rightarrow>
          (case select_pointers fs of
             Inl e \<Rightarrow> Inl e
           | Inr ps \<Rightarrow> Inr (if b then f # ps else ps)))"

text \<open>
  \<^verbatim>\<open>for f in self.fields: f['size'] = tobits(f['size'])\<close>. \<^verbatim>\<open>tobits\<close> is imported from
  \<^verbatim>\<open>romlib.util\<close>, which is not among the sources: it is the parameter \<open>tobits\<close>, and
  the loop stops at the first size on which it raises.
\<close>

fun normalise :: "('sz \<Rightarrow> error + int) \<Rightarrow> 'sz descriptor list \<Rightarrow> error + field list" where
  "normalise tobits [] = Inr []"
| "normalise tobits (f # fs) =
     (case tobits (f_size f) of
        Inl e \<Rightarrow> Inl e
      | Inr n \<Rightarrow>
          (case normalise tobits fs of
             Inl e \<Rightarrow> Inl e
           | Inr ds \<Rightarrow>
               Inr (\<lparr>f_id = f_id f, f_label = f_label f, f_type = f_type f, f_size = n,
                     f_display = f_display f, f_tags = f_tags f, f_order = f_order f,
                     f_comment = f_comment f\<rparr> # ds)))"

text \<open>
  A structure definition as its methods see it: the attributes \<^verbatim>\<open>pointers\<close> and
  \<^verbatim>\<open>fields\<close>. The class is declared as \<^verbatim>\<open>class StructDef(object)\<close> and defines
  \<^verbatim>\<open>__init__\<close>, \<^verbatim>\<open>from_file\<close>, \<^verbatim>\<open>from_primitive_array\<close>, \<^verbatim>\<open>_output_fields\<close>,
  \<^verbatim>\<open>isdata\<close>, \<^verbatim>\<open>ispointer\<close>, \<^verbatim>\<open>isname\<close>, \<^verbatim>\<open>bytes\<close>, \<^verbatim>\<open>bits\<close> and
  \<^verbatim>\<open>changeset\<close>, and nothing else.
\<close>

record StructDef =
  s_pointers :: "field list"
  s_fields :: "field list"

text \<open>
  \<^verbatim>\<open>StructDef.__init__\<close> (lines 300 to 310). The pointer fields are selected first, then
  the storage fields, whose sizes are normalised. Line 309 then calls \<^verbatim>\<open>namedtuple\<close>,
  a name that the module never binds (line 10 imports \<^verbatim>\<open>OrderedDict\<close> alone from
  \<^verbatim>\<open>collections\<close>): whenever the lines before it have not raised, NameError is raised
  there, and the constructor returns no object on any input.
\<close>

definition StructDef_init :: "('sz \<Rightarrow> error + int) \<Rightarrow> 'sz descriptor list \<Rightarrow> error + StructDef" where
  "StructDef_init tobits fs =
     (case select_pointers fs of
        Inl e \<Rightarrow> Inl e
      | Inr ps \<Rightarrow>
          (case normalise tobits (filter isdata fs) of
             Inl e \<Rightarrow> Inl e
           | Inr ds \<Rightarrow> Inl (NameError ''namedtuple'')))"

text \<open>\<^verbatim>\<open>StructDef.bits\<close>: \<^verbatim>\<open>sum(f['size'] for f in self.fields)\<close>.\<close>

definition bits :: "StructDef \<Rightarrow> int" where
  "bits self = sum_list (map f_size (s_fields self))"

text \<open>
  \<^verbatim>\<open>StructDef.bytes\<close>: \<^verbatim>\<open>sum(f['size'] / 8 for f in self.fields)\<close>. In Python 3
  \<^verbatim>\<open>/\<close> is true division, so each summand is the eighth of an integer, a float. The
  model computes with rationals: as long as the sizes are not negative and their sum is
  at most \<open>2 ^ 53\<close>, every summand and every partial sum is an eighth that binary
  floating point represents exactly, and the rational is the value of the float.
\<close>

definition bytes :: "StructDef \<Rightarrow> rat" where
  "bytes self = sum_list (map (\<lambda>f. of_int (f_size f) / 8) (s_fields self))"

text \<open>
  \<^verbatim>\<open>StructDef._output_fields\<close>. \<^verbatim>\<open>next(f for f in allfields if self.isname(f))\<close> has no
  default: when no field is labelled Name the generator is exhausted and StopIteration
  leaves the method.
\<close>

definition output_fields :: "StructDef \<Rightarrow> error + (string \<times> string) list" where
  "output_fields self =
     (let allfields = s_fields self @ s_pointers self in
      case find isname allfields of
        None \<Rightarrow> Inl StopIteration
      | Some name \<Rightarrow>
          (let normal = filter (\<lambda>f. \<not> isname f) (s_fields self);
               ptrs = filter (\<lambda>f. \<not> isname f) (s_pointers self)
           in Inr (map (\<lambda>f. (f_id f, f_label f)) (name # normal @ ptrs))))"

text \<open>Descriptors used as concrete inputs below.\<close>

definition mk_field :: "string \<Rightarrow> string \<Rightarrow> string \<Rightarrow> 'sz \<Rightarrow> 'sz descriptor" where
  "mk_field i l t n =
     \<lparr>f_id = i, f_label = l, f_type = t, f_size = n, f_display = [], f_tags = [],
      f_order = [], f_comment = []\<rparr>"

section \<open>Structure definitions: theorems\<close>

lemma star_not_alnum: "\<not> isalnum_char CHR ''*''"
  by (simp add: isalnum_char_def)

lemma ispointer_IndexError: "(ispointer f = Inl e) = (f_id f = [] \<and> e = IndexError)"
  by (auto simp: ispointer_def split: list.splits)

lemma ispointer_Inr: "(ispointer f = Inr b) = (f_id f \<noteq> [] \<and> b = (hd (f_id f) = CHR ''*''))"
  by (auto simp: ispointer_def split: list.splits)

lemma pointer_not_data: "ispointer f = Inr True \<Longrightarrow> \<not> isdata f"
  by (cases "f_id f") (auto simp: ispointer_def isdata_def isalnum_def star_not_alnum)

lemma select_pointers_Inl:
  "(select_pointers fs = Inl e) = ((\<exists>f\<in>set fs. f_id f = []) \<and> e = IndexError)"
proof (induction fs)
  case Nil
  show ?case by simp
next
  case (Cons f fs)
  show ?case
  proof (cases "ispointer f")
    case (Inl e')
    then have e: "f_id f = []" "e' = IndexError"
      by (simp_all add: ispointer_IndexError)
    show ?thesis using e by (auto simp: Inl)
  next
    case (Inr b)
    then have "f_id f \<noteq> []" by (simp add: ispointer_Inr)
    with Inr Cons.IH show ?thesis by (auto split: sum.splits)
  qed
qed

lemma select_pointers_Inr:
  "select_pointers fs = Inr ps \<Longrightarrow> ps = filter (\<lambda>f. ispointer f = Inr True) fs"
proof (induction fs arbitrary: ps)
  case Nil
  then show ?case by simp
next
  case (Cons f fs)
  then show ?case by (auto split: sum.splits if_splits)
qed

lemma select_pointers_total:
  "\<forall>f\<in>set fs. f_id f \<noteq> [] \<Longrightarrow> \<exists>ps. select_pointers fs = Inr ps"
  using select_pointers_Inl [of fs] by (cases "select_pointers fs") auto

text \<open>
  The partition of lines 302 and 303 on rows whose ids are all non-empty: the pointer
  list and the storage list are sublists of the rows in their order, and no row is in
  both.
\<close>

lemma partition_disjoint:
  assumes "select_pointers fs = Inr ps"
  shows "ps = filter (\<lambda>f. hd (f_id f) = CHR ''*'') fs"
    and "set ps \<inter> set (filter isdata fs) = {}"
proof -
  from assms have nonempty: "\<forall>f\<in>set fs. f_id f \<noteq> []"
    using select_pointers_Inl [of fs IndexError] by auto
  have p: "ps = filter (\<lambda>f. ispointer f = Inr True) fs"
    by (rule select_pointers_Inr [OF assms])
  have "filter (\<lambda>f. ispointer f = Inr True) fs = filter (\<lambda>f. hd (f_id f) = CHR ''*'') fs"
    using nonempty by (intro filter_cong) (auto simp: ispointer_Inr)
  with p show "ps = filter (\<lambda>f. hd (f_id f) = CHR ''*'') fs" by simp
  show "set ps \<inter> set (filter isdata fs) = {}"
    using p pointer_not_data by auto
qed

text \<open>The constructor returns on no input, and which exception leaves it.\<close>

lemma StructDef_init_raises: "StructDef_init tobits fs \<noteq> Inr sd"
  by (simp add: StructDef_init_def split: sum.splits)

lemma StructDef_init_IndexError:
  "\<exists>f\<in>set fs. f_id f = [] \<Longrightarrow> StructDef_init tobits fs = Inl IndexError"
  using select_pointers_Inl [of fs IndexError]
  by (simp add: StructDef_init_def split: sum.splits)

lemma StructDef_init_NameError:
  assumes "\<forall>f\<in>set fs. f_id f \<noteq> []" and "normalise tobits (filter isdata fs) = Inr ds"
  shows "StructDef_init tobits fs = Inl (NameError ''namedtuple'')"
proof -
  from select_pointers_total [OF assms(1)] obtain ps where "select_pointers fs = Inr ps"
    by blast
  with assms(2) show ?thesis by (simp add: StructDef_init_def)
qed

text \<open>
  C9. The pointer test raises IndexError on a descriptor whose id is empty. On the
  single row \<open>hp\<close>, whose id is not empty, the constructor does not return a schema: if
  \<^verbatim>\<open>tobits\<close> accepts the size, it raises NameError for the unbound \<^verbatim>\<open>namedtuple\<close>. It
  returns a schema on no list of rows at all.
\<close>

theorem construction_raises_NameError:
  "ispointer (mk_field [] l t sz) = Inl IndexError
   \<and> StructDef_init tobits [mk_field ''hp'' ''HP'' ''uint'' sz]
       = (case tobits sz of Inl e \<Rightarrow> Inl e | Inr n \<Rightarrow> Inl (NameError ''namedtuple''))
   \<and> StructDef_init tobits fs \<noteq> Inr sd"
proof -
  have a: "ispointer (mk_field [] l t sz) = Inl IndexError"
    by (simp add: ispointer_def mk_field_def)
  have p: "select_pointers [mk_field ''hp'' ''HP'' ''uint'' sz] = Inr []"
    by (simp add: ispointer_def mk_field_def)
  have d: "isdata (mk_field ''hp'' ''HP'' ''uint'' sz)"
    by (simp add: isdata_def isalnum_def isalnum_char_def mk_field_def)
  have s: "f_size (mk_field ''hp'' ''HP'' ''uint'' sz) = sz"
    by (simp add: mk_field_def)
  have b: "StructDef_init tobits [mk_field ''hp'' ''HP'' ''uint'' sz]
       = (case tobits sz of Inl e \<Rightarrow> Inl e | Inr n \<Rightarrow> Inl (NameError ''namedtuple''))"
  proof (cases "tobits sz")
    case (Inl e)
    then have "normalise tobits (filter isdata [mk_field ''hp'' ''HP'' ''uint'' sz]) = Inl e"
      by (simp add: d s)
    then show ?thesis by (simp only: StructDef_init_def p sum.case Inl)
  next
    case (Inr n)
    then obtain ds
      where "normalise tobits (filter isdata [mk_field ''hp'' ''HP'' ''uint'' sz]) = Inr ds"
      by (simp add: d s)
    then show ?thesis by (simp only: StructDef_init_def p sum.case Inr)
  qed
  from a b StructDef_init_raises [of tobits fs sd] show ?thesis by (simp only: simp_thms)
qed


section \<open>Widths\<close>

lemma eighth_is_integer: "((of_int b :: rat) / 8 = of_int k) = (b = 8 * k)"
proof -
  have "((of_int b :: rat) / 8 = of_int k) = ((of_int b :: rat) = of_int (8 * k))"
    by (simp add: field_simps)
  then show ?thesis by (simp only: of_int_eq_iff)
qed

lemma bytes_eighth: "bytes sd = of_int (bits sd) / 8"
proof -
  have "sum_list (map (\<lambda>f. (of_int (f_size f) :: rat) / 8) xs)
          = of_int (sum_list (map f_size xs)) / 8" for xs :: "field list"
    by (induction xs) (simp_all add: add_divide_distrib)
  then show ?thesis by (simp add: bytes_def bits_def)
qed

lemma bytes_integral: "(bytes sd = of_int \<lceil>bytes sd\<rceil>) = (8 dvd bits sd)"
proof
  assume "bytes sd = of_int \<lceil>bytes sd\<rceil>"
  then have "(of_int (bits sd) :: rat) / 8 = of_int \<lceil>bytes sd\<rceil>"
    by (simp add: bytes_eighth)
  then have "bits sd = 8 * \<lceil>bytes sd\<rceil>"
    by (simp only: eighth_is_integer)
  then show "8 dvd bits sd" by (metis dvd_triv_left)
next
  assume "8 dvd bits sd"
  then obtain k where k: "bits sd = 8 * k" by (auto elim: dvdE)
  then have "bytes sd = of_int k" by (simp add: bytes_eighth)
  then show "bytes sd = of_int \<lceil>bytes sd\<rceil>" by simp
qed

text \<open>
  A structure definition with one 12-bit storage field: its width in bytes is computed
  as \<open>3/2\<close>, not as the ceiling 2.
\<close>

theorem bytes_not_ceiling:
  "bits \<lparr>s_pointers = [], s_fields = [mk_field ''hp'' ''HP'' ''uint'' 12]\<rparr> = 12
   \<and> bytes \<lparr>s_pointers = [], s_fields = [mk_field ''hp'' ''HP'' ''uint'' 12]\<rparr> = 3 / 2
   \<and> bytes \<lparr>s_pointers = [], s_fields = [mk_field ''hp'' ''HP'' ''uint'' 12]\<rparr>
       \<noteq> of_int \<lceil>(of_int (bits \<lparr>s_pointers = [],
             s_fields = [mk_field ''hp'' ''HP'' ''uint'' 12]\<rparr>) :: rat) / 8\<rceil>"
proof -
  let ?sd = "\<lparr>s_pointers = [], s_fields = [mk_field ''hp'' ''HP'' ''uint'' 12]\<rparr>"
  have b: "bits ?sd = 12" by (simp add: bits_def mk_field_def)
  have y: "bytes ?sd = 3 / 2" by (simp add: bytes_def mk_field_def)
  have n: "bytes ?sd \<noteq> of_int \<lceil>(of_int (bits ?sd) :: rat) / 8\<rceil>"
  proof
    assume "bytes ?sd = of_int \<lceil>(of_int (bits ?sd) :: rat) / 8\<rceil>"
    then have "bytes ?sd = of_int \<lceil>bytes ?sd\<rceil>"
      by (simp only: bytes_eighth)
    then have "8 dvd bits ?sd"
      by (simp only: bytes_integral)
    then show False unfolding b by simp
  qed
  from b y n show ?thesis by (simp only: simp_thms)
qed

text \<open>
  C6 (amended). For a structure definition whose storage sizes are not negative and sum
  to at most \<open>2 ^ 53\<close> (where the rational is the float that the code computes): the
  width in bits is the sum of the sizes of the storage fields, whatever the pointer
  fields are; the width in bytes is exactly one eighth of it, with no rounding, so it is
  the integer \<open>ceil(bits/8)\<close> precisely when the width in bits is a multiple of 8.
\<close>

theorem width_computation:
  assumes "\<forall>f\<in>set (s_fields sd). 0 \<le> f_size f" and "bits sd \<le> 2 ^ 53"
  shows "bits sd = sum_list (map f_size (s_fields sd))
     \<and> bits (sd\<lparr>s_pointers := ps\<rparr>) = bits sd
     \<and> bytes sd = of_int (bits sd) / 8
     \<and> (bytes sd = of_int \<lceil>(of_int (bits sd) :: rat) / 8\<rceil>) = (8 dvd bits sd)"
proof -
  have a: "bits sd = sum_list (map f_size (s_fields sd))"
    by (simp add: bits_def)
  have b: "bits (sd\<lparr>s_pointers := ps\<rparr>) = bits sd"
    by (simp add: bits_def)
  have c: "(bytes sd = of_int \<lceil>(of_int (bits sd) :: rat) / 8\<rceil>) = (8 dvd bits sd)"
    using bytes_integral [of sd] by (simp only: bytes_eighth)
  from a b c bytes_eighth [of sd] show ?thesis by (simp only: simp_thms)
qed

theorem width_computation_witness:
  "bits \<lparr>s_pointers = [mk_field ''*name'' ''Name'' ''strz'' 24],
         s_fields = [mk_field ''id'' ''ID'' ''uint'' 8, mk_field ''hp'' ''HP'' ''uintle'' 16]\<rparr>
     = 24
   \<and> bits \<lparr>s_pointers = [],
         s_fields = [mk_field ''id'' ''ID'' ''uint'' 8, mk_field ''hp'' ''HP'' ''uintle'' 16]\<rparr>
     = 24
   \<and> bytes \<lparr>s_pointers = [mk_field ''*name'' ''Name'' ''strz'' 24],
         s_fields = [mk_field ''id'' ''ID'' ''uint'' 8, mk_field ''hp'' ''HP'' ''uintle'' 16]\<rparr>
     = 3"
proof -
  let ?sd = "\<lparr>s_pointers = [mk_field ''*name'' ''Name'' ''strz'' 24],
         s_fields = [mk_field ''id'' ''ID'' ''uint'' 8, mk_field ''hp'' ''HP'' ''uintle'' 16]\<rparr>"
  have s: "sum_list (map f_size (s_fields ?sd)) = 24"
    by (simp add: mk_field_def)
  have nonneg: "\<forall>f\<in>set (s_fields ?sd). 0 \<le> f_size f"
    by (simp add: mk_field_def)
  have small: "bits ?sd \<le> 2 ^ 53"
    by (simp add: bits_def mk_field_def)
  note w = width_computation [OF nonneg small, of "[]"]
  from w s have b: "bits ?sd = 24" by simp
  from w b have b': "bits (?sd\<lparr>s_pointers := []\<rparr>) = 24" by simp
  from w have "bytes ?sd = of_int (bits ?sd) / 8" by blast
  then have y: "bytes ?sd = 3" unfolding b by simp
  from b b' y show ?thesis by simp
qed

section \<open>Output ordering\<close>

lemma output_fields_with_name:
  "find isname (s_fields sd @ s_pointers sd) = Some n \<Longrightarrow>
     output_fields sd =
       Inr ((f_id n, ''Name'')
            # map (\<lambda>f. (f_id f, f_label f))
                (filter (\<lambda>f. \<not> isname f) (s_fields sd)
                 @ filter (\<lambda>f. \<not> isname f) (s_pointers sd)))"
proof -
  assume n: "find isname (s_fields sd @ s_pointers sd) = Some n"
  then have "isname n" by (auto simp: find_Some_iff)
  then have "f_label n = ''Name''" by (simp add: isname_def)
  with n show ?thesis by (simp add: output_fields_def)
qed

text \<open>
  C5. \<open>output_fields\<close> on a structure definition without a field labelled Name: with
  the single storage field \<open>hp\<close> and no pointer field, asking for the output order
  raises StopIteration instead of returning \<open>[(hp, HP)]\<close>. With two fields labelled
  Name the second one is in no part of the result.
\<close>

theorem output_fields_without_name:
  "output_fields \<lparr>s_pointers = [], s_fields = [mk_field ''hp'' ''HP'' ''uint'' 8]\<rparr>
       = Inl StopIteration
   \<and> output_fields
        \<lparr>s_pointers = [],
         s_fields = [mk_field ''a'' ''Name'' ''uint'' 8, mk_field ''b'' ''Name'' ''uint'' 8]\<rparr>
       = Inr [(''a'', ''Name'')]"
proof -
  have o: "output_fields \<lparr>s_pointers = [], s_fields = [mk_field ''hp'' ''HP'' ''uint'' 8]\<rparr>
       = Inl StopIteration"
    by (simp add: output_fields_def isname_def mk_field_def)
  have t: "output_fields
        \<lparr>s_pointers = [],
         s_fields = [mk_field ''a'' ''Name'' ''uint'' 8, mk_field ''b'' ''Name'' ''uint'' 8]\<rparr>
       = Inr [(''a'', ''Name'')]"
    by (simp add: output_fields_def isname_def mk_field_def)
  from o t show ?thesis by (simp only: simp_thms)
qed


section \<open>Ordered dictionaries\<close>

text \<open>
  \<^verbatim>\<open>collections.OrderedDict\<close> is an association list with distinct keys in insertion
  order. Assigning to a key that is present replaces its value and keeps its position;
  a new key goes to the end: this is \<open>AList.update\<close>. Building a dictionary from pairs and
  \<^verbatim>\<open>update\<close> assign the pairs one after the other.
\<close>

type_synonym 'v odict = "(string \<times> 'v) list"

definition od_update :: "'v odict \<Rightarrow> (string \<times> 'v) list \<Rightarrow> 'v odict" where
  "od_update d ps = foldl (\<lambda>od (k, v). AList.update k v od) d ps"

definition od_of_pairs :: "(string \<times> 'v) list \<Rightarrow> 'v odict" where
  "od_of_pairs ps = od_update [] ps"

text \<open>\<^verbatim>\<open>move_to_end(key, last=False)\<close>: KeyError when the key is absent.\<close>

definition move_to_front :: "string \<Rightarrow> 'v odict \<Rightarrow> error + 'v odict" where
  "move_to_front k d =
     (case map_of d k of
        None \<Rightarrow> Inl (KeyError k)
      | Some v \<Rightarrow> Inr ((k, v) # AList.delete k d))"

section \<open>Arrays and the dump\<close>

text \<open>
  An array definition is a row of \<^verbatim>\<open>arrays.csv\<close> together with its structure
  definition; \<open>a_offset\<close> and \<open>a_stride\<close> are in bits (after \<^verbatim>\<open>tobits\<close>) and
  \<open>a_length\<close> is \<^verbatim>\<open>int(self['length'])\<close>.
\<close>

record ArrayDef =
  a_name :: string
  a_type :: string
  a_offset :: int
  a_length :: int
  a_stride :: int
  a_set :: string
  a_label :: string
  a_comment :: string
  a_struct :: StructDef

text \<open>
  A row of a dumped table is a dictionary of cells. The attribute lookups
  \<^verbatim>\<open>self.struct.read\<close> (line 206), \<^verbatim>\<open>dereference_pointers\<close> (line 113) and
  \<^verbatim>\<open>s.values\<close> (line 130) are made on a \<^verbatim>\<open>StructDef\<close>, a class that defines none of
  the three and inherits from \<^verbatim>\<open>object\<close>: each raises AttributeError, whatever the
  arguments are.
\<close>

type_synonym row = "string odict"

definition StructDef_read :: "StructDef \<Rightarrow> int \<Rightarrow> error + row" where
  "StructDef_read self pos = Inl AttributeError"

definition dereference_pointers :: "row \<Rightarrow> error + row" where
  "dereference_pointers item = Inl AttributeError"

definition StructDef_values :: "StructDef \<Rightarrow> error + field list" where
  "StructDef_values s = Inl AttributeError"

text \<open>The results of a list of computations in order, up to the first that raises.\<close>

fun sequence :: "(error + 'a) list \<Rightarrow> error + 'a list" where
  "sequence [] = Inr []"
| "sequence (x # xs) =
     (case x of
        Inl e \<Rightarrow> Inl e
      | Inr v \<Rightarrow>
          (case sequence xs of
             Inl e \<Rightarrow> Inl e
           | Inr vs \<Rightarrow> Inr (v # vs)))"

text \<open>
  \<^verbatim>\<open>ArrayDef.read\<close> is a generator: for each \<open>i\<close> in \<^verbatim>\<open>range(length)\<close> it yields
  \<^verbatim>\<open>self.struct.read(stream, pos)\<close> with \<open>pos = i * stride + offset\<close>; a length of
  zero or less gives no element. Line 113 draws its elements one by one and
  dereferences each.
\<close>

definition ArrayDef_read :: "ArrayDef \<Rightarrow> (error + row) list" where
  "ArrayDef_read a =
     map (\<lambda>i. StructDef_read (a_struct a) (int i * a_stride a + a_offset a))
       [0..<nat (a_length a)]"

definition read_items :: "ArrayDef \<Rightarrow> error + row list" where
  "read_items a =
     sequence (map (\<lambda>r. case r of Inl e \<Rightarrow> Inl e | Inr item \<Rightarrow> dereference_pointers item)
       (ArrayDef_read a))"

definition read_all :: "ArrayDef list \<Rightarrow> error + row list list" where
  "read_all arrays = sequence (map read_items arrays)"

text \<open>\<^verbatim>\<open>zip(*data)\<close>: the tuples of the i-th elements, as many as the shortest list has.\<close>

fun min_length :: "'a list list \<Rightarrow> nat" where
  "min_length [] = 0"
| "min_length [xs] = length xs"
| "min_length (xs # ys # r) = min (length xs) (min_length (ys # r))"

definition zip_star :: "'a list list \<Rightarrow> 'a list list" where
  "zip_star xss = map (\<lambda>i. map (\<lambda>xs. xs ! i) xss) [0..<min_length xss]"

text \<open>
  Modelled from the spec: \<^verbatim>\<open>merge_dicts\<close> is imported from \<^verbatim>\<open>romlib.util\<close>, which is
  not among the sources. It unites the dictionaries of one index; when a key occurs in
  more than one of them it raises a ValueError whose \<^verbatim>\<open>overlap\<close> attribute holds the
  overlapping keys (the dump reads \<^verbatim>\<open>e.overlap\<close>). \<open>Inl\<close> carries that attribute.
\<close>

definition merge_dicts :: "row list \<Rightarrow> string list + row" where
  "merge_dicts parts =
     (let keys = concat (map (map fst) parts);
          overlap = remdups (filter (\<lambda>k. 1 < count_list keys k) keys)
      in if overlap \<noteq> [] then Inl overlap else Inr (concat parts))"

text \<open>\<^verbatim>\<open>[merge_dicts(parts) for parts in zip(*data)]\<close> stops at the first ValueError.\<close>

fun merge_all :: "row list list \<Rightarrow> string list + row list" where
  "merge_all [] = Inr []"
| "merge_all (parts # rest) =
     (case merge_dicts parts of
        Inl overlap \<Rightarrow> Inl overlap
      | Inr r \<Rightarrow>
          (case merge_all rest of
             Inl overlap \<Rightarrow> Inl overlap
           | Inr rs \<Rightarrow> Inr (r # rs)))"

text \<open>
  The header of one set (lines 127 to 138). For each member array in turn,
  \<^verbatim>\<open>itertools.chain(s.values(), s.pointers)\<close> is evaluated first, then \<^verbatim>\<open>headermap\<close> is
  updated with the (id, label) dictionary of the array; after the loop the first key
  whose label is Name, if there is one, is moved to the front.
\<close>

definition id_labels :: "ArrayDef \<Rightarrow> error + (string \<times> string) list" where
  "id_labels a =
     (case StructDef_values (a_struct a) of
        Inl e \<Rightarrow> Inl e
      | Inr vs \<Rightarrow> Inr (map (\<lambda>f. (f_id f, f_label f)) (vs @ s_pointers (a_struct a))))"

fun headermap :: "ArrayDef list \<Rightarrow> string odict \<Rightarrow> error + string odict" where
  "headermap [] h = Inr h"
| "headermap (a # arrays) h =
     (case id_labels a of
        Inl e \<Rightarrow> Inl e
      | Inr ps \<Rightarrow> headermap arrays (od_update h (od_of_pairs ps)))"

definition dump_header :: "ArrayDef list \<Rightarrow> error + string odict" where
  "dump_header arrays =
     (case headermap arrays [] of
        Inl e \<Rightarrow> Inl e
      | Inr h \<Rightarrow>
          (case find (\<lambda>(k, v). v = ''Name'') h of
             None \<Rightarrow> Inr h
           | Some (name, v) \<Rightarrow> move_to_front name h))"

text \<open>
  \<^verbatim>\<open>csv.DictWriter.writerow\<close> with the default \<^verbatim>\<open>extrasaction='raise'\<close> and
  \<^verbatim>\<open>restval=''\<close>: a key outside the field names is a ValueError naming the keys;
  otherwise one cell per field name, empty where the dictionary has no entry.
\<close>

definition row_cells :: "string list \<Rightarrow> row \<Rightarrow> string list" where
  "row_cells fieldnames r =
     map (\<lambda>k. case map_of r k of None \<Rightarrow> [] | Some v \<Rightarrow> v) fieldnames"

definition DictWriter_writerow :: "string list \<Rightarrow> row \<Rightarrow> error + string list" where
  "DictWriter_writerow fieldnames r =
     (let wrong = filter (\<lambda>k. k \<notin> set fieldnames) (map fst r) in
      if wrong \<noteq> [] then Inl (ValueError wrong)
      else Inr (row_cells fieldnames r))"

text \<open>
  The lines written to the open file so far, and the error that stopped the writing if
  there was one.
\<close>

fun writerows :: "string list \<Rightarrow> row list \<Rightarrow> string list list
    \<Rightarrow> string list list \<times> error option" where
  "writerows fieldnames [] written = (written, None)"
| "writerows fieldnames (r # rs) written =
     (case DictWriter_writerow fieldnames r of
        Inl e \<Rightarrow> (written, Some e)
      | Inr line \<Rightarrow> writerows fieldnames rs (written @ [line]))"

text \<open>
  The file system: the directories that exist, and the lines of the csv file at each
  path that holds one. \<^verbatim>\<open>open(fname, mode)\<close> raises FileNotFoundError when the
  directory of the path does not exist (the dump does not create the folder); mode
  \<^verbatim>\<open>"x"\<close> (no overwrite) raises FileExistsError on an existing path; otherwise the
  file is created or truncated.
\<close>

record filesystem =
  fs_dirs :: "string set"
  fs_files :: "string \<rightharpoonup> string list list"

definition dirname :: "string \<Rightarrow> string" where
  "dirname path = rev (drop 1 (dropWhile (\<lambda>c. c \<noteq> CHR ''/'') (rev path)))"

definition csv_name :: "string \<Rightarrow> string \<Rightarrow> string" where
  "csv_name folder entity = folder @ ''/'' @ entity @ ''.csv''"

definition open_write :: "bool \<Rightarrow> string \<Rightarrow> filesystem \<Rightarrow> error + filesystem" where
  "open_write allow_overwrite fname fs =
     (if dirname fname \<notin> fs_dirs fs then Inl (FileNotFoundError fname)
      else if \<not> allow_overwrite \<and> fs_files fs fname \<noteq> None then Inl (FileExistsError fname)
      else Inr (fs\<lparr>fs_files := (fs_files fs)(fname \<mapsto> [])\<rparr>))"

text \<open>
  The body of the loop of \<^verbatim>\<open>RomMap.dump\<close> for one array set (lines 112 to 146): the
  file system afterwards and the exception that left the body, if any.
\<close>

definition dump_set :: "bool \<Rightarrow> string \<Rightarrow> string \<Rightarrow> ArrayDef list \<Rightarrow> filesystem
    \<Rightarrow> filesystem \<times> error option" where
  "dump_set allow_overwrite folder entity arrays fs =
     (case read_all arrays of
        Inl e \<Rightarrow> (fs, Some e)
      | Inr data \<Rightarrow>
          (case merge_all (zip_star data) of
             Inl overlap \<Rightarrow> (fs, Some (RomMapError entity overlap))
           | Inr rows \<Rightarrow>
               (case dump_header arrays of
                  Inl e \<Rightarrow> (fs, Some e)
                | Inr header \<Rightarrow>
                    (case open_write allow_overwrite (csv_name folder entity) fs of
                       Inl e \<Rightarrow> (fs, Some e)
                     | Inr fs' \<Rightarrow>
                         (case writerows (map fst header) (header # rows) [] of
                            (written, err) \<Rightarrow>
                              (fs'\<lparr>fs_files := (fs_files fs')(csv_name folder entity \<mapsto> written)\<rparr>,
                               err))))))"

text \<open>\<^verbatim>\<open>RomMap.dump\<close>: the sets in turn; the first exception ends the dump.\<close>

fun dump :: "bool \<Rightarrow> string \<Rightarrow> (string \<times> ArrayDef list) list \<Rightarrow> filesystem
    \<Rightarrow> filesystem \<times> error option" where
  "dump allow_overwrite folder [] fs = (fs, None)"
| "dump allow_overwrite folder ((entity, arrays) # rest) fs =
     (case dump_set allow_overwrite folder entity arrays fs of
        (fs', Some e) \<Rightarrow> (fs', Some e)
      | (fs', None) \<Rightarrow> dump allow_overwrite folder rest fs')"

text \<open>Array definitions used as concrete inputs below.\<close>

definition mk_array :: "string \<Rightarrow> int \<Rightarrow> int \<Rightarrow> int \<Rightarrow> string \<Rightarrow> StructDef \<Rightarrow> ArrayDef" where
  "mk_array n off len stride st s =
     \<lparr>a_name = n, a_type = n, a_offset = off, a_length = len, a_stride = stride,
      a_set = st, a_label = n, a_comment = [], a_struct = s\<rparr>"

section \<open>The dump: lemmas\<close>

lemma sequence_two_outcomes:
  "\<forall>x\<in>set xs. f x = Inr [] \<or> f x = Inl AttributeError \<Longrightarrow>
     sequence (map f xs) = Inl AttributeError \<or> sequence (map f xs) = Inr (map (\<lambda>x. []) xs)"
proof (induction xs)
  case Nil
  show ?case by simp
next
  case (Cons x xs)
  then have "f x = Inr [] \<or> f x = Inl AttributeError" by simp
  moreover from Cons
  have "sequence (map f xs) = Inl AttributeError \<or> sequence (map f xs) = Inr (map (\<lambda>x. []) xs)"
    by simp
  ultimately show ?case by auto
qed

lemma read_items_outcome: "read_items a = Inr [] \<or> read_items a = Inl AttributeError"
proof (cases "nat (a_length a)")
  case 0
  then show ?thesis by (simp add: read_items_def ArrayDef_read_def)
next
  case (Suc n)
  then have "[0..<nat (a_length a)] = 0 # [1..<Suc n]"
    by (simp add: upt_conv_Cons)
  then show ?thesis
    by (simp add: read_items_def ArrayDef_read_def StructDef_read_def)
qed

lemma read_items_nonempty: "0 < a_length a \<Longrightarrow> read_items a = Inl AttributeError"
proof -
  assume "0 < a_length a"
  then obtain n where "nat (a_length a) = Suc n"
    by (cases "nat (a_length a)") auto
  then have "[0..<nat (a_length a)] = 0 # [1..<Suc n]"
    by (simp add: upt_conv_Cons)
  then show ?thesis
    by (simp add: read_items_def ArrayDef_read_def StructDef_read_def)
qed

lemma read_all_outcome:
  "read_all arrays = Inl AttributeError \<or> read_all arrays = Inr (map (\<lambda>a. []) arrays)"
  unfolding read_all_def
  by (rule sequence_two_outcomes) (simp add: read_items_outcome)

lemma min_length_le: "xs \<in> set xss \<Longrightarrow> min_length xss \<le> length xs"
  by (induction xss rule: min_length.induct) auto

lemma zip_star_empty_member: "[] \<in> set xss \<Longrightarrow> zip_star xss = []"
  using min_length_le [of "[]" xss] by (simp add: zip_star_def)

lemma dump_header_AttributeError: "arrays \<noteq> [] \<Longrightarrow> dump_header arrays = Inl AttributeError"
  by (cases arrays) (simp_all add: dump_header_def id_labels_def StructDef_values_def)

text \<open>
  Every array set with at least one member array: the body of the loop ends in
  AttributeError and leaves the file system as it was. Either an element is drawn from a
  member array (line 206), or no member array has an element and the header loop asks
  for \<^verbatim>\<open>s.values()\<close> (line 130).
\<close>

lemma dump_set_AttributeError:
  assumes "arrays \<noteq> []"
  shows "dump_set allow_overwrite folder entity arrays fs = (fs, Some AttributeError)"
proof -
  consider (raised) "read_all arrays = Inl AttributeError"
    | (empty) "read_all arrays = Inr (map (\<lambda>a. []) arrays)"
    using read_all_outcome by blast
  then show ?thesis
  proof cases
    case raised
    then show ?thesis by (simp add: dump_set_def)
  next
    case empty
    from assms have "[] \<in> set (map (\<lambda>a. [] :: row list) arrays)"
      by (cases arrays) simp_all
    then have z: "zip_star (map (\<lambda>a. [] :: row list) arrays) = []"
      by (rule zip_star_empty_member)
    show ?thesis
      by (simp add: dump_set_def empty z dump_header_AttributeError [OF assms])
  qed
qed

lemma dump_first_set:
  "arrays \<noteq> [] \<Longrightarrow>
     dump allow_overwrite folder ((entity, arrays) # rest) fs = (fs, Some AttributeError)"
  by (simp add: dump_set_AttributeError)

text \<open>
  An array set without member arrays reaches the file: the header is empty, and one
  empty line is written unless opening the file raises.
\<close>

lemma dump_set_no_arrays:
  "dump_set allow_overwrite folder entity [] fs =
     (case open_write allow_overwrite (csv_name folder entity) fs of
        Inl e \<Rightarrow> (fs, Some e)
      | Inr fs' \<Rightarrow> (fs'\<lparr>fs_files := (fs_files fs')(csv_name folder entity \<mapsto> [[]])\<rparr>, None))"
  by (simp add: dump_set_def read_all_def zip_star_def dump_header_def
      DictWriter_writerow_def row_cells_def split: sum.splits)


section \<open>The dump: theorems\<close>

text \<open>
  C4. The set \<open>mon\<close> of two one-element arrays that both declare the storage id \<open>hp\<close>,
  dumped into the existing folder \<open>out\<close>: drawing the first element raises
  AttributeError, so the dump of the set ends in AttributeError and not in a RomMapError
  that names the set and \<open>hp\<close>; the file system is as it was. The same two arrays
  without elements are read without an exception, and the dump of the set ends in
  AttributeError again.
\<close>

theorem overlapping_set_raises_AttributeError:
  "read_all
     [mk_array ''stats'' 0 1 8 ''mon''
        \<lparr>s_pointers = [], s_fields = [mk_field ''hp'' ''HP'' ''uint'' 8]\<rparr>,
      mk_array ''more'' 64 1 8 ''mon''
        \<lparr>s_pointers = [], s_fields = [mk_field ''hp'' ''HP'' ''uint'' 8]\<rparr>]
     = Inl AttributeError
   \<and> dump_set False ''out'' ''mon''
     [mk_array ''stats'' 0 1 8 ''mon''
        \<lparr>s_pointers = [], s_fields = [mk_field ''hp'' ''HP'' ''uint'' 8]\<rparr>,
      mk_array ''more'' 64 1 8 ''mon''
        \<lparr>s_pointers = [], s_fields = [mk_field ''hp'' ''HP'' ''uint'' 8]\<rparr>]
     \<lparr>fs_dirs = {''out''}, fs_files = Map.empty\<rparr>
     = (\<lparr>fs_dirs = {''out''}, fs_files = Map.empty\<rparr>, Some AttributeError)
   \<and> read_all
     [mk_array ''stats'' 0 0 8 ''mon''
        \<lparr>s_pointers = [], s_fields = [mk_field ''hp'' ''HP'' ''uint'' 8]\<rparr>,
      mk_array ''more'' 64 0 8 ''mon''
        \<lparr>s_pointers = [], s_fields = [mk_field ''hp'' ''HP'' ''uint'' 8]\<rparr>]
     = Inr [[], []]
   \<and> dump_set False ''out'' ''mon''
     [mk_array ''stats'' 0 0 8 ''mon''
        \<lparr>s_pointers = [], s_fields = [mk_field ''hp'' ''HP'' ''uint'' 8]\<rparr>,
      mk_array ''more'' 64 0 8 ''mon''
        \<lparr>s_pointers = [], s_fields = [mk_field ''hp'' ''HP'' ''uint'' 8]\<rparr>]
     \<lparr>fs_dirs = {''out''}, fs_files = Map.empty\<rparr>
     = (\<lparr>fs_dirs = {''out''}, fs_files = Map.empty\<rparr>, Some AttributeError)"
proof -
  let ?sd = "\<lparr>s_pointers = [], s_fields = [mk_field ''hp'' ''HP'' ''uint'' 8]\<rparr>"
  have one: "read_items (mk_array n off 1 8 ''mon'' ?sd) = Inl AttributeError" for n off
    by (rule read_items_nonempty) (simp add: mk_array_def)
  have none: "read_items (mk_array n off 0 8 ''mon'' ?sd) = Inr []" for n off
    by (simp add: read_items_def ArrayDef_read_def mk_array_def)
  have r1: "read_all [mk_array ''stats'' 0 1 8 ''mon'' ?sd, mk_array ''more'' 64 1 8 ''mon'' ?sd]
              = Inl AttributeError"
    by (simp add: read_all_def one)
  have r0: "read_all [mk_array ''stats'' 0 0 8 ''mon'' ?sd, mk_array ''more'' 64 0 8 ''mon'' ?sd]
              = Inr [[], []]"
    by (simp add: read_all_def none)
  have d: "dump_set False ''out'' ''mon'' [a, b] fs = (fs, Some AttributeError)" for a b fs
    by (rule dump_set_AttributeError) simp
  from r1 r0 d show ?thesis by (simp only: simp_thms)
qed

text \<open>
  C7. The set \<open>mon\<close> of one array whose structure declares \<open>hp\<close>, \<open>name\<close> and the
  pointer \<open>*name\<close> labelled Name: the header loop raises AttributeError at
  \<^verbatim>\<open>s.values()\<close>, so no header is built, and the dump of the set ends in AttributeError
  with the file system as it was.
\<close>

theorem header_is_not_built:
  "dump_header
     [mk_array ''stats'' 0 2 24 ''mon''
        \<lparr>s_pointers = [mk_field ''*name'' ''Name'' ''strz'' 0],
         s_fields = [mk_field ''hp'' ''HP'' ''uint'' 8, mk_field ''name'' ''NamePtr'' ''uint'' 16]\<rparr>]
     = Inl AttributeError
   \<and> dump_set True ''out'' ''mon''
     [mk_array ''stats'' 0 2 24 ''mon''
        \<lparr>s_pointers = [mk_field ''*name'' ''Name'' ''strz'' 0],
         s_fields = [mk_field ''hp'' ''HP'' ''uint'' 8, mk_field ''name'' ''NamePtr'' ''uint'' 16]\<rparr>]
     \<lparr>fs_dirs = {''out''}, fs_files = Map.empty\<rparr>
     = (\<lparr>fs_dirs = {''out''}, fs_files = Map.empty\<rparr>, Some AttributeError)"
proof -
  have h: "dump_header [a] = Inl AttributeError" for a
    by (rule dump_header_AttributeError) simp
  have d: "dump_set True ''out'' ''mon'' [a] fs = (fs, Some AttributeError)" for a fs
    by (rule dump_set_AttributeError) simp
  from h d show ?thesis by (simp only: simp_thms)
qed

text \<open>
  C8. The set \<open>mon\<close> of one two-element array, dumped into the folder \<open>out\<close> where
  \<open>out/mon.csv\<close> exists. With overwrite requested the file is not replaced: the dump of
  the set ends in AttributeError before the file is opened and the file keeps its old
  line. Without overwrite the exception is the same AttributeError, not
  FileExistsError.
\<close>

theorem existing_file_is_not_reached:
  "dump_set True ''out'' ''mon''
     [mk_array ''stats'' 0 2 8 ''mon''
        \<lparr>s_pointers = [], s_fields = [mk_field ''hp'' ''HP'' ''uint'' 8]\<rparr>]
     \<lparr>fs_dirs = {''out''}, fs_files = Map.empty(''out/mon.csv'' \<mapsto> [[''old'']])\<rparr>
     = (\<lparr>fs_dirs = {''out''}, fs_files = Map.empty(''out/mon.csv'' \<mapsto> [[''old'']])\<rparr>,
        Some AttributeError)
   \<and> dump_set False ''out'' ''mon''
     [mk_array ''stats'' 0 2 8 ''mon''
        \<lparr>s_pointers = [], s_fields = [mk_field ''hp'' ''HP'' ''uint'' 8]\<rparr>]
     \<lparr>fs_dirs = {''out''}, fs_files = Map.empty(''out/mon.csv'' \<mapsto> [[''old'']])\<rparr>
     = (\<lparr>fs_dirs = {''out''}, fs_files = Map.empty(''out/mon.csv'' \<mapsto> [[''old'']])\<rparr>,
        Some AttributeError)
   \<and> open_write False ''out/mon.csv''
     \<lparr>fs_dirs = {''out''}, fs_files = Map.empty(''out/mon.csv'' \<mapsto> [[''old'']])\<rparr>
     = Inl (FileExistsError ''out/mon.csv'')"
proof -
  have d: "dump_set w ''out'' ''mon'' [a] fs = (fs, Some AttributeError)" for w a fs
    by (rule dump_set_AttributeError) simp
  have "dirname ''out/mon.csv'' = ''out''"
    by (simp add: dirname_def)
  then have o: "open_write False ''out/mon.csv''
     \<lparr>fs_dirs = {''out''}, fs_files = Map.empty(''out/mon.csv'' \<mapsto> [[''old'']])\<rparr>
     = Inl (FileExistsError ''out/mon.csv'')"
    by (simp add: open_write_def)
  from d o show ?thesis by (simp only: simp_thms)
qed


section \<open>Bit strings, serialisation and changesets\<close>

text \<open>
  A field value is an integer (what a read or \<^verbatim>\<open>int(value, 0)\<close> gives) or a string (a
  cell of a csv file).
\<close>

datatype pyval = IntV int | StrV string

text \<open>
  \<^verbatim>\<open>Bits("t:n=v, ...")\<close> of the \<^verbatim>\<open>bitstring\<close> package builds the bits of each token
  \<^verbatim>\<open>t:n=v\<close> in turn and concatenates them; a token it cannot build raises
  CreationError. The package is not part of the repository: the encoder of one token is
  the parameter \<open>enc\<close> (type tag, width, value) of everything below. An empty
  initialiser is the empty bit string.
\<close>

type_synonym encoder = "string \<Rightarrow> int \<Rightarrow> pyval \<Rightarrow> error + bool list"

fun Bits_auto :: "encoder \<Rightarrow> (string \<times> int \<times> pyval) list \<Rightarrow> error + bool list" where
  "Bits_auto enc [] = Inr []"
| "Bits_auto enc ((tp, n, v) # rest) =
     (case enc tp n v of
        Inl e \<Rightarrow> Inl e
      | Inr bs \<Rightarrow>
          (case Bits_auto enc rest of
             Inl e \<Rightarrow> Inl e
           | Inr r \<Rightarrow> Inr (bs @ r)))"

text \<open>
  \<^verbatim>\<open>Bits.bytes\<close>: the bit string as bytes, most significant bit first; InterpretError
  when its length is not a multiple of 8 (the property does not pad).
\<close>

definition byte_value :: "bool list \<Rightarrow> nat" where
  "byte_value bs = foldl (\<lambda>a b. 2 * a + (if b then 1 else 0)) 0 bs"

definition Bits_bytes :: "bool list \<Rightarrow> error + nat list" where
  "Bits_bytes bs =
     (if length bs mod 8 \<noteq> 0 then Inl InterpretError
      else Inr (map (\<lambda>i. byte_value (take 8 (drop (8 * i) bs))) [0..<length bs div 8]))"

text \<open>\<^verbatim>\<open>"int" in ftype\<close>: the substring test.\<close>

fun str_contains :: "string \<Rightarrow> string \<Rightarrow> bool" where
  "str_contains sub [] = (sub = [])"
| "str_contains sub (c # s) = (take (length sub) (c # s) = sub \<or> str_contains sub s)"

text \<open>
  \<^verbatim>\<open>int(value, 0)\<close>: TypeError on a value that is not a string, ValueError on a string
  that is not an integer literal. The reader of literals is the parameter \<open>int0\<close>.
\<close>

definition py_int :: "(string \<Rightarrow> int option) \<Rightarrow> pyval \<Rightarrow> error + pyval" where
  "py_int int0 v =
     (case v of
        IntV i \<Rightarrow> Inl TypeError
      | StrV s \<Rightarrow> (case int0 s of None \<Rightarrow> Inl (ValueError [s]) | Some i \<Rightarrow> Inr (IntV i)))"

text \<open>
  \<^verbatim>\<open>self[fid]\<close> (line 363) subscripts a \<^verbatim>\<open>StructDef\<close>. The class defines no
  \<^verbatim>\<open>__getitem__\<close> and inherits from \<^verbatim>\<open>object\<close>: the subscription raises TypeError,
  whatever the id is.
\<close>

definition StructDef_getitem :: "StructDef \<Rightarrow> string \<Rightarrow> error + field" where
  "StructDef_getitem self fid = Inl TypeError"

text \<open>
  \<^verbatim>\<open>StructDef.changeset\<close>. The loop over \<^verbatim>\<open>item.items()\<close> builds one initialiser per
  entry of the item, in the order of the item; integer types have their value read as a
  literal first.
\<close>

definition convert :: "(string \<Rightarrow> int option) \<Rightarrow> field \<Rightarrow> pyval \<Rightarrow> error + pyval" where
  "convert int0 f v = (if str_contains ''int'' (f_type f) then py_int int0 v else Inr v)"

fun initializers :: "(string \<Rightarrow> int option) \<Rightarrow> StructDef \<Rightarrow> (string \<times> pyval) list
    \<Rightarrow> error + (string \<times> int \<times> pyval) list" where
  "initializers int0 self [] = Inr []"
| "initializers int0 self ((fid, v) # rest) =
     (case StructDef_getitem self fid of
        Inl e \<Rightarrow> Inl e
      | Inr f \<Rightarrow>
          (case convert int0 f v of
             Inl e \<Rightarrow> Inl e
           | Inr v' \<Rightarrow>
               (case initializers int0 self rest of
                  Inl e \<Rightarrow> Inl e
                | Inr inits \<Rightarrow> Inr ((f_type f, f_size f, v') # inits))))"

text \<open>
  The result \<^verbatim>\<open>{offset+i: b for i, b in enumerate(itemdata.bytes)}\<close> is the list of its
  entries in insertion order. \<open>offset\<close> is added to the index of the byte as it is:
  \<^verbatim>\<open>makepatch\<close> passes \<^verbatim>\<open>int(a['offset'] // 8)\<close>, the byte offset of the array.
\<close>

definition changeset :: "encoder \<Rightarrow> (string \<Rightarrow> int option) \<Rightarrow> StructDef
    \<Rightarrow> (string \<times> pyval) list \<Rightarrow> int \<Rightarrow> error + (int \<times> nat) list" where
  "changeset enc int0 self item offset =
     (case initializers int0 self item of
        Inl e \<Rightarrow> Inl e
      | Inr inits \<Rightarrow>
          (case Bits_auto enc inits of
             Inl e \<Rightarrow> Inl e
           | Inr itemdata \<Rightarrow>
               (case Bits_bytes itemdata of
                  Inl e \<Rightarrow> Inl e
                | Inr bs \<Rightarrow> Inr (map (\<lambda>(i, b). (offset + int i, b)) (enumerate 0 bs)))))"

text \<open>
  A structure: its definition, the \<^verbatim>\<open>data\<close> tuple (attribute name to value) and the
  \<^verbatim>\<open>calculated\<close> tuple.
\<close>

record Struct =
  st_definition :: StructDef
  st_data :: "(string \<times> pyval) list"
  st_calculated :: "(string \<times> pyval) list"

text \<open>
  \<^verbatim>\<open>Struct.to_bytes\<close>: one initialiser per storage field of the definition, with the
  value \<^verbatim>\<open>getattr(self.data, field['id'])\<close> (AttributeError when the tuple has no such
  attribute), then \<^verbatim>\<open>Bits(...).bytes\<close>.
\<close>

fun bitinit :: "(string \<times> pyval) list \<Rightarrow> field list \<Rightarrow> error + (string \<times> int \<times> pyval) list" where
  "bitinit d [] = Inr []"
| "bitinit d (f # fs) =
     (case map_of d (f_id f) of
        None \<Rightarrow> Inl AttributeError
      | Some v \<Rightarrow>
          (case bitinit d fs of
             Inl e \<Rightarrow> Inl e
           | Inr inits \<Rightarrow> Inr ((f_type f, f_size f, v) # inits)))"

definition to_bytes :: "encoder \<Rightarrow> Struct \<Rightarrow> error + nat list" where
  "to_bytes enc self =
     (case bitinit (st_data self) (s_fields (st_definition self)) of
        Inl e \<Rightarrow> Inl e
      | Inr inits \<Rightarrow>
          (case Bits_auto enc inits of
             Inl e \<Rightarrow> Inl e
           | Inr bs \<Rightarrow> Bits_bytes bs))"

text \<open>
  \<^verbatim>\<open>Struct.read(self, stream, offset=None)\<close>. With an offset the stream is positioned
  first (\<open>seek\<close>, a method of the stream, is a parameter). The format list is built, and
  the next statement evaluates \<^verbatim>\<open>bitstream.readlist(fmt)\<close>: the name \<^verbatim>\<open>bitstream\<close> is
  bound nowhere in the module (the parameter is called \<^verbatim>\<open>stream\<close>, the imports are
  \<^verbatim>\<open>ConstBitStream\<close> and \<^verbatim>\<open>Bits\<close>), so NameError is raised there on every call and
  the statements after it are never reached.
\<close>

definition read_fmt :: "Struct \<Rightarrow> (string \<times> int) list" where
  "read_fmt self = map (\<lambda>f. (f_type f, f_size f)) (s_fields (st_definition self))"

definition Struct_read :: "('s \<Rightarrow> int \<Rightarrow> error + 's) \<Rightarrow> Struct \<Rightarrow> 's \<Rightarrow> int option
    \<Rightarrow> error + Struct" where
  "Struct_read seek self stream offset =
     (case (case offset of None \<Rightarrow> Inr stream | Some pos \<Rightarrow> seek stream pos) of
        Inl e \<Rightarrow> Inl e
      | Inr stream' \<Rightarrow> (let fmt = read_fmt self in Inl (NameError ''bitstream'')))"

text \<open>
  A stand-in for the library on the inputs of the examples: the token \<^verbatim>\<open>uint:n=i\<close>
  with an integer \<open>i\<close> that fits \<open>n\<close> bits, most significant bit first. Every other
  input is refused.
\<close>

definition uint_token :: encoder where
  "uint_token tp n v =
     (case v of
        IntV i \<Rightarrow>
          (if tp = ''uint'' \<and> 0 < n \<and> 0 \<le> i \<and> i < 2 ^ nat n
           then Inr (map (\<lambda>k. bit i (nat n - 1 - k)) [0..<nat n])
           else Inl CreationError)
      | StrV s \<Rightarrow> Inl CreationError)"


section \<open>Changesets: theorems\<close>

lemma changeset_empty_item: "changeset enc int0 sd [] offset = Inr []"
  by (simp add: changeset_def Bits_bytes_def)

text \<open>
  C2. \<open>changeset\<close> on an item with at least one entry raises TypeError at the first
  \<^verbatim>\<open>self[fid]\<close>, for every schema, encoder and offset: in particular the schema with
  the single 8-bit field \<open>id\<close>, the item \<open>id = "5"\<close> and the offset 0 give TypeError
  and not a map with the one key 0.
\<close>

theorem changeset_raises_TypeError:
  "changeset enc int0 sd ((fid, v) # rest) offset = Inl TypeError
   \<and> changeset enc int0
       \<lparr>s_pointers = [], s_fields = [mk_field ''id'' ''ID'' ''uint'' 8]\<rparr>
       [(''id'', StrV ''5'')] 0 = Inl TypeError"
proof -
  have "initializers int0 s ((k, x) # r) = Inl TypeError" for s k x r
    by (simp add: StructDef_getitem_def)
  then have "changeset enc int0 s ((k, x) # r) off = Inl TypeError" for s k x r off
    by (simp only: changeset_def sum.case)
  then show ?thesis by (simp only: simp_thms)
qed


section \<open>Reading a structure back\<close>

lemma Struct_read_raises: "Struct_read seek self stream offset \<noteq> Inr s"
  by (simp add: Struct_read_def Let_def split: option.splits sum.splits)

text \<open>
  C1. The structure with the single 8-bit field \<open>id\<close> and the value 5 serialises to the
  byte 5. Reading a structure of that schema from the bit stream of that byte raises
  NameError (the unbound name \<open>bitstream\<close>), so no structure comes back whose bytes
  could be compared with the original ones.
\<close>

theorem read_after_to_bytes_raises:
  "to_bytes uint_token
     \<lparr>st_definition = \<lparr>s_pointers = [], s_fields = [mk_field ''id'' ''ID'' ''uint'' 8]\<rparr>,
      st_data = [(''id'', IntV 5)], st_calculated = []\<rparr> = Inr [5]
   \<and> Struct_read (\<lambda>s pos. Inr s)
       \<lparr>st_definition = \<lparr>s_pointers = [], s_fields = [mk_field ''id'' ''ID'' ''uint'' 8]\<rparr>,
        st_data = [], st_calculated = []\<rparr>
       [False, False, False, False, False, True, False, True] None
     = Inl (NameError ''bitstream'')"
proof -
  have i: "bitinit [(''id'', IntV 5)] [mk_field ''id'' ''ID'' ''uint'' 8]
             = Inr [(''uint'', 8, IntV 5)]"
    by (simp add: mk_field_def)
  have b8: "Bits_auto uint_token [(''uint'', 8, IntV 5)]
              = Inr [False, False, False, False, False, True, False, True]"
    by (simp add: uint_token_def upt_rec bit_numeral_rec)
  have y8: "Bits_bytes [False, False, False, False, False, True, False, True] = Inr [5]"
    by (simp add: Bits_bytes_def byte_value_def)
  have t: "to_bytes uint_token
     \<lparr>st_definition = \<lparr>s_pointers = [], s_fields = [mk_field ''id'' ''ID'' ''uint'' 8]\<rparr>,
      st_data = [(''id'', IntV 5)], st_calculated = []\<rparr> = Inr [5]"
    by (simp only: to_bytes_def Struct.select_convs StructDef.select_convs i b8 y8 sum.case)
  have r: "Struct_read (\<lambda>s pos. Inr s)
       \<lparr>st_definition = \<lparr>s_pointers = [], s_fields = [mk_field ''id'' ''ID'' ''uint'' 8]\<rparr>,
        st_data = [], st_calculated = []\<rparr>
       [False, False, False, False, False, True, False, True] None
     = Inl (NameError ''bitstream'')"
    by (simp add: Struct_read_def)
  from t r show ?thesis by (simp only: simp_thms)
qed
end
